theory Spec2Isabelle
  imports Complex_Main
begin

section \<open>JavaScript numbers\<close>

text \<open>
  Every number of \<^verbatim>\<open>main.js\<close> is an IEEE double. The model keeps the three special
  values apart from the finite ones and computes on the finite ones with the reals, so
  rounding and overflow of finite arithmetic are not modelled, and there is one zero.
  The special values follow the language: \<open>NaN\<close> is absorbing and compares false with
  everything, the infinities have their signs, \<open>Infinity - Infinity\<close> and
  \<open>Infinity * 0\<close> are \<open>NaN\<close>.
\<close>

datatype jsnum = NaN | NInf | PInf | Fin real

fun jadd :: "jsnum \<Rightarrow> jsnum \<Rightarrow> jsnum" where
  "jadd (Fin a) (Fin b) = Fin (a + b)"
| "jadd NaN _ = NaN"
| "jadd _ NaN = NaN"
| "jadd PInf NInf = NaN"
| "jadd NInf PInf = NaN"
| "jadd PInf _ = PInf"
| "jadd _ PInf = PInf"
| "jadd NInf _ = NInf"
| "jadd _ NInf = NInf"

fun jneg :: "jsnum \<Rightarrow> jsnum" where
  "jneg NaN = NaN"
| "jneg NInf = PInf"
| "jneg PInf = NInf"
| "jneg (Fin a) = Fin (- a)"

fun jsign :: "jsnum \<Rightarrow> int" where
  "jsign NaN = 0"
| "jsign NInf = - 1"
| "jsign PInf = 1"
| "jsign (Fin a) = (if a < 0 then - 1 else if a = 0 then 0 else 1)"

fun jmul :: "jsnum \<Rightarrow> jsnum \<Rightarrow> jsnum" where
  "jmul (Fin a) (Fin b) = Fin (a * b)"
| "jmul NaN _ = NaN"
| "jmul _ NaN = NaN"
| "jmul u v =
     (if jsign u * jsign v = 0 then NaN else if 0 < jsign u * jsign v then PInf else NInf)"

text \<open>Division; a zero divisor is the positive zero, the only zero of the model.\<close>

fun jdiv :: "jsnum \<Rightarrow> jsnum \<Rightarrow> jsnum" where
  "jdiv (Fin a) (Fin b) =
     (if b \<noteq> 0 then Fin (a / b) else if 0 < a then PInf else if a < 0 then NInf else NaN)"
| "jdiv NaN _ = NaN"
| "jdiv _ NaN = NaN"
| "jdiv (Fin a) _ = Fin 0"
| "jdiv PInf (Fin b) = (if 0 \<le> b then PInf else NInf)"
| "jdiv NInf (Fin b) = (if 0 \<le> b then NInf else PInf)"
| "jdiv _ _ = NaN"

instantiation jsnum :: "{plus, minus, uminus, times}"
begin

definition plus_jsnum :: "jsnum \<Rightarrow> jsnum \<Rightarrow> jsnum" where
  "plus_jsnum u v = jadd u v"

definition uminus_jsnum :: "jsnum \<Rightarrow> jsnum" where
  "uminus_jsnum u = jneg u"

definition minus_jsnum :: "jsnum \<Rightarrow> jsnum \<Rightarrow> jsnum" where
  "minus_jsnum u v = jadd u (jneg v)"

definition times_jsnum :: "jsnum \<Rightarrow> jsnum \<Rightarrow> jsnum" where
  "times_jsnum u v = jmul u v"

instance ..

end

lemmas jsnum_arith = plus_jsnum_def uminus_jsnum_def minus_jsnum_def times_jsnum_def

text \<open>The comparisons \<^verbatim>\<open><\<close> and \<^verbatim>\<open>>\<close>: false as soon as one side is \<open>NaN\<close>.\<close>

fun jlt :: "jsnum \<Rightarrow> jsnum \<Rightarrow> bool" where
  "jlt (Fin a) (Fin b) = (a < b)"
| "jlt NaN _ = False"
| "jlt _ NaN = False"
| "jlt _ NInf = False"
| "jlt NInf _ = True"
| "jlt PInf _ = False"
| "jlt _ PInf = True"

definition jgt :: "jsnum \<Rightarrow> jsnum \<Rightarrow> bool" where
  "jgt u v = jlt v u"

text \<open>\<^verbatim>\<open>Math.min\<close>, \<^verbatim>\<open>Math.max\<close>, \<^verbatim>\<open>Math.abs\<close>, \<^verbatim>\<open>Math.log10\<close>, \<^verbatim>\<open>Math.sin\<close>.\<close>

definition Math_min :: "jsnum \<Rightarrow> jsnum \<Rightarrow> jsnum" where
  "Math_min u v = (if u = NaN \<or> v = NaN then NaN else if jlt v u then v else u)"

definition Math_max :: "jsnum \<Rightarrow> jsnum \<Rightarrow> jsnum" where
  "Math_max u v = (if u = NaN \<or> v = NaN then NaN else if jlt u v then v else u)"

fun Math_abs :: "jsnum \<Rightarrow> jsnum" where
  "Math_abs NaN = NaN"
| "Math_abs NInf = PInf"
| "Math_abs PInf = PInf"
| "Math_abs (Fin a) = Fin \<bar>a\<bar>"

fun Math_log10 :: "jsnum \<Rightarrow> jsnum" where
  "Math_log10 NaN = NaN"
| "Math_log10 NInf = NaN"
| "Math_log10 PInf = PInf"
| "Math_log10 (Fin a) = (if a < 0 then NaN else if a = 0 then NInf else Fin (log 10 a))"

fun Math_sin :: "jsnum \<Rightarrow> jsnum" where
  "Math_sin (Fin a) = Fin (sin a)"
| "Math_sin _ = NaN"

text \<open>Truthiness of a number, and \<^verbatim>\<open>a || b\<close> on numbers.\<close>

fun truthy :: "jsnum \<Rightarrow> bool" where
  "truthy NaN = False"
| "truthy (Fin a) = (a \<noteq> 0)"
| "truthy _ = True"

definition or_else :: "jsnum \<Rightarrow> jsnum \<Rightarrow> jsnum" where
  "or_else u v = (if truthy u then u else v)"

text \<open>\<^verbatim>\<open>s.startsWith(c)\<close> for a one-character \<open>c\<close>.\<close>

fun startsWith :: "string \<Rightarrow> char \<Rightarrow> bool" where
  "startsWith [] c = False"
| "startsWith (d # _) c = (d = c)"

section \<open>The state of the module\<close>

text \<open>\<^verbatim>\<open>noaaData\<close>, with the fields of the source.\<close>

record noaa =
  ssn :: jsnum
  kp :: jsnum
  bz :: jsnum
  solarWind :: jsnum
  protonFlux :: jsnum
  electronFlux :: jsnum
  stormLevel :: jsnum
  radiationLevel :: jsnum
  recentFlare :: string

text \<open>
  The scene objects the module keeps handles to, each with the properties that
  \<^verbatim>\<open>main.js\<close> reads or writes after construction: a spot light (\<^verbatim>\<open>intensity\<close>,
  \<^verbatim>\<open>userData.baseIntensity\<close>), the reactive frame (\<^verbatim>\<open>material.emissive\<close> as the hex
  colour, \<^verbatim>\<open>material.emissiveIntensity\<close>, \<^verbatim>\<open>rotation.z\<close>, \<^verbatim>\<open>position.y\<close>,
  \<^verbatim>\<open>userData.baseY\<close>), the dust and star point clouds, and three-component vectors.
\<close>

record light =
  intensity :: jsnum
  baseIntensity :: jsnum

record frame =
  emissive :: nat
  emissiveIntensity :: jsnum
  frame_rotation_z :: jsnum
  frame_position_y :: jsnum
  baseY :: jsnum

record dust =
  dust_position_y :: jsnum
  dust_rotation_y :: jsnum
  dust_opacity :: jsnum

record stars =
  star_rotation_y :: jsnum
  star_position_z :: jsnum
  star_opacity :: jsnum

record vec3 =
  vx :: real
  vy :: real
  vz :: real

text \<open>
  The module-level variables. \<^verbatim>\<open>lights.left\<close>, \<^verbatim>\<open>lights.center\<close>, \<^verbatim>\<open>lights.right\<close>,
  \<^verbatim>\<open>window.reactiveFrame\<close> and \<^verbatim>\<open>dustParticles\<close> are tested for presence by the code,
  so they are optional here; \<^verbatim>\<open>moveState\<close> is read as a map from property name to
  flag, a missing property being falsy. The clocks, the camera position and the orbit
  target only ever hold finite numbers and are reals; \<^verbatim>\<open>currentIndex\<close> only ever holds
  an integer.
\<close>

record app =
  noaaData :: noaa
  lights_left :: "light option"
  lights_center :: "light option"
  lights_right :: "light option"
  reactiveFrame :: "frame option"
  dustParticles :: "dust option"
  starField :: stars
  ambientLight :: jsnum
  moveState :: "string \<Rightarrow> bool"
  isDynamic :: bool
  isAutopilot :: bool
  autopilotTime :: real
  autopilotContentTimer :: real
  currentType :: string
  currentIndex :: int
  camera_position :: vec3
  controls_target :: vec3

definition PLAYER_HEIGHT :: real where
  "PLAYER_HEIGHT = 1.6"

definition moveSpeed :: real where
  "moveSpeed = 0.25"

text \<open>The state once \<^verbatim>\<open>init()\<close> has built the scene (lines 4 to 30 and 35 to 80).\<close>

definition noaaData0 :: noaa where
  "noaaData0 = \<lparr> ssn = Fin 50, kp = Fin 2, bz = Fin 0, solarWind = Fin 400,
     protonFlux = Fin 1, electronFlux = Fin 100, stormLevel = Fin 0,
     radiationLevel = Fin 0, recentFlare = ''None'' \<rparr>"

definition app0 :: app where
  "app0 = \<lparr> noaaData = noaaData0,
     lights_left = Some \<lparr> intensity = Fin 800, baseIntensity = Fin 800 \<rparr>,
     lights_center = Some \<lparr> intensity = Fin 800, baseIntensity = Fin 800 \<rparr>,
     lights_right = Some \<lparr> intensity = Fin 800, baseIntensity = Fin 800 \<rparr>,
     reactiveFrame = Some \<lparr> emissive = 0x000000, emissiveIntensity = Fin 0,
       frame_rotation_z = Fin 0, frame_position_y = Fin (PLAYER_HEIGHT + 0.5 + 0.5),
       baseY = Fin (PLAYER_HEIGHT + 0.5 + 0.5) \<rparr>,
     dustParticles = Some \<lparr> dust_position_y = Fin 0, dust_rotation_y = Fin 0,
       dust_opacity = Fin 0.3 \<rparr>,
     starField = \<lparr> star_rotation_y = Fin 0, star_position_z = Fin 0, star_opacity = Fin 0.4 \<rparr>,
     ambientLight = Fin 0.03,
     moveState = (\<lambda>k. False),
     isDynamic = True,
     isAutopilot = False,
     autopilotTime = 0,
     autopilotContentTimer = 0,
     currentType = ''jpg'',
     currentIndex = 1,
     camera_position = \<lparr> vx = 0, vy = PLAYER_HEIGHT, vz = 15 \<rparr>,
     controls_target = \<lparr> vx = 0, vy = PLAYER_HEIGHT + 0.5, vz = - 2 \<rparr> \<rparr>"

section \<open>The telemetry refresh\<close>

text \<open>
  \<^verbatim>\<open>updateSpaceWeather\<close> awaits six queries. Each one ends in
  \<^verbatim>\<open>.catch(() => null)\<close>, so a query that fails yields \<^verbatim>\<open>null\<close>: the response of a
  query is \<open>None\<close> for \<^verbatim>\<open>null\<close> and otherwise the decoded time series, an array of
  objects. A field that the code reads without \<^verbatim>\<open>parseFloat\<close> is optional (\<open>None\<close> when
  the property is absent or \<^verbatim>\<open>null\<close>); a field that the code passes to \<^verbatim>\<open>parseFloat\<close>
  is given by the number \<^verbatim>\<open>parseFloat\<close> reads from it, which is \<open>NaN\<close> when the property
  is absent, \<^verbatim>\<open>null\<close> or not numeric text.
\<close>

record ssn_entry =
  predicted_ssn :: "real option"

record flux_entry =
  flux :: jsnum

record kp_entry =
  kp_index :: jsnum

record wind_entry =
  wind_speed :: jsnum
  wind_bz :: jsnum

record flare_entry =
  current_class :: "string option"
  max_class :: "string option"

record responses =
  rSSN :: "ssn_entry list option"
  rProton :: "flux_entry list option"
  rFlare :: "flare_entry list option"
  rKp :: "kp_entry list option"
  rWind :: "wind_entry list option"
  rElectron :: "flux_entry list option"

text \<open>
  \<^verbatim>\<open>a[a.length - 1]\<close>: the last element, \<^verbatim>\<open>undefined\<close> on the empty array; and
  \<^verbatim>\<open>e?.f\<close>, which is \<^verbatim>\<open>undefined\<close> when \<open>e\<close> is.
\<close>

definition last_elem :: "'a list \<Rightarrow> 'a option" where
  "last_elem es = (if es = [] then None else Some (last es))"

definition parseFloat :: "jsnum option \<Rightarrow> jsnum" where
  "parseFloat v = (case v of None \<Rightarrow> NaN | Some u \<Rightarrow> u)"

text \<open>\<^verbatim>\<open>v || 50\<close> on an optional JSON number, and \<^verbatim>\<open>a || b\<close> on an optional string.\<close>

definition num_or_else :: "real option \<Rightarrow> jsnum \<Rightarrow> jsnum" where
  "num_or_else v d = (case v of None \<Rightarrow> d | Some a \<Rightarrow> if a = 0 then d else Fin a)"

definition str_or_else :: "string option \<Rightarrow> string \<Rightarrow> string" where
  "str_or_else v d = (case v of None \<Rightarrow> d | Some s \<Rightarrow> if s = [] then d else s)"

text \<open>Lines 114 to 125: the raw fields.\<close>

definition update_raw :: "responses \<Rightarrow> noaa \<Rightarrow> noaa" where
  "update_raw r d =
    (let d1 = (case rSSN r of None \<Rightarrow> d
               | Some es \<Rightarrow>
                   d\<lparr>ssn := num_or_else
                     (case last_elem es of None \<Rightarrow> None | Some e \<Rightarrow> predicted_ssn e)
                     (Fin 50)\<rparr>);
         d2 = (case rProton r of None \<Rightarrow> d1
               | Some es \<Rightarrow>
                   d1\<lparr>protonFlux :=
                     or_else (parseFloat (map_option flux (last_elem es))) (Fin 1)\<rparr>);
         d3 = (case rKp r of None \<Rightarrow> d2
               | Some es \<Rightarrow>
                   d2\<lparr>kp := or_else (parseFloat (map_option kp_index (last_elem es))) (Fin 2)\<rparr>);
         d4 = (case rWind r of None \<Rightarrow> d3
               | Some es \<Rightarrow>
                   if es = [] then d3
                   else d3\<lparr>solarWind := or_else (parseFloat (Some (wind_speed (last es)))) (Fin 400),
                           bz := or_else (parseFloat (Some (wind_bz (last es)))) (Fin 0)\<rparr>);
         d5 = (case rElectron r of None \<Rightarrow> d4
               | Some es \<Rightarrow>
                   d4\<lparr>electronFlux :=
                     or_else (parseFloat (map_option flux (last_elem es))) (Fin 100)\<rparr>);
         d6 = (case rFlare r of None \<Rightarrow> d5
               | Some es \<Rightarrow>
                   if es = [] then d5
                   else d5\<lparr>recentFlare :=
                     str_or_else (current_class (last es))
                       (str_or_else (max_class (last es)) ''None'')\<rparr>)
     in d6)"

text \<open>Lines 127 to 129: the derived fields.\<close>

definition flareBoost :: "string \<Rightarrow> jsnum" where
  "flareBoost f =
    (if startsWith f CHR ''X'' then Fin 0.8 else if startsWith f CHR ''M'' then Fin 0.3 else Fin 0)"

definition update_derived :: "noaa \<Rightarrow> noaa" where
  "update_derived d =
    (let d1 = d\<lparr>radiationLevel :=
                 Math_min (Fin 1)
                   (jdiv (Math_log10 (protonFlux d + Fin 1)) (Fin 5) + flareBoost (recentFlare d))\<rparr>;
         d2 = d1\<lparr>stormLevel :=
                 Math_min (Fin 1)
                   (jdiv (kp d1) (Fin 9)
                    + (if jlt (bz d1) (Fin 0) then jdiv (Math_abs (bz d1)) (Fin 20) else Fin 0))\<rparr>
     in d2)"

text \<open>
  \<^verbatim>\<open>updateLightsFromNOAA\<close>, lines 148 to 156. The rest of the function writes the two
  colour pickers of the page and is not part of the model.
\<close>

definition updateLightsFromNOAA :: "app \<Rightarrow> app" where
  "updateLightsFromNOAA s =
    (let b = Fin 300 + ssn (noaaData s) * Fin 8;
         stormMod = Fin 1 + stormLevel (noaaData s) * Fin 0.5
     in s\<lparr>lights_left := map_option (\<lambda>l. l\<lparr>baseIntensity := b * stormMod\<rparr>) (lights_left s),
          lights_center :=
            map_option (\<lambda>l. l\<lparr>baseIntensity := b * stormMod * Fin 1.2\<rparr>) (lights_center s),
          lights_right := map_option (\<lambda>l. l\<lparr>baseIntensity := b * stormMod\<rparr>) (lights_right s)\<rparr>)"

text \<open>
  \<^verbatim>\<open>updateSpaceWeather\<close>. The text written to the page between the two steps is not
  modelled; with every response an array of objects and the page's elements present, no
  statement of the \<^verbatim>\<open>try\<close> block throws.
\<close>

definition updateSpaceWeather :: "responses \<Rightarrow> app \<Rightarrow> app" where
  "updateSpaceWeather r s =
     updateLightsFromNOAA (s\<lparr>noaaData := update_derived (update_raw r (noaaData s))\<rparr>)"

text \<open>The state after a run of refreshes, the oldest first, from the initial state.\<close>

definition refreshes :: "responses list \<Rightarrow> app" where
  "refreshes rs = foldl (\<lambda>s r. updateSpaceWeather r s) app0 rs"

text \<open>A refresh in which every query fails, as a base for concrete refreshes.\<close>

definition no_data :: responses where
  "no_data = \<lparr> rSSN = None, rProton = None, rFlare = None, rKp = None, rWind = None,
     rElectron = None \<rparr>"

section \<open>Navigation, the effects switch and the content sequencer\<close>

definition toggleAutopilot :: "app \<Rightarrow> app" where
  "toggleAutopilot s =
    (let s1 = s\<lparr>isAutopilot := \<not> isAutopilot s\<rparr>
     in if isAutopilot s1 then s1\<lparr>autopilotTime := 0, autopilotContentTimer := 0\<rparr> else s1)"

definition toggleFX :: "app \<Rightarrow> app" where
  "toggleFX s = s\<lparr>isDynamic := \<not> isDynamic s\<rparr>"

definition moveCamera :: "string \<Rightarrow> app \<Rightarrow> app" where
  "moveCamera dir s = s\<lparr>moveState := (moveState s)(dir := True)\<rparr>"

definition stopCamera :: "app \<Rightarrow> app" where
  "stopCamera s = s\<lparr>moveState := (\<lambda>k. False)\<rparr>"

definition resetPosition :: "app \<Rightarrow> app" where
  "resetPosition s =
     s\<lparr>camera_position := \<lparr> vx = 0, vy = PLAYER_HEIGHT + 0.5, vz = 8 \<rparr>,
       controls_target := \<lparr> vx = 0, vy = PLAYER_HEIGHT + 0.5, vz = - 2 \<rparr>\<rparr>"

text \<open>
  The sequencer. \<^verbatim>\<open>updateUI\<close> and \<^verbatim>\<open>loadContent\<close> write the page and the artwork's
  texture, not the variables of the model.
\<close>

definition flipType :: "string \<Rightarrow> string" where
  "flipType t = (if t = ''jpg'' then ''gif'' else ''jpg'')"

definition nextContent :: "app \<Rightarrow> app" where
  "nextContent s =
    (let s1 = s\<lparr>currentIndex := currentIndex s + 1\<rparr>
     in if currentIndex s1 > 13
        then s1\<lparr>currentIndex := 1, currentType := flipType (currentType s1)\<rparr>
        else s1)"

definition prevContent :: "app \<Rightarrow> app" where
  "prevContent s =
    (let s1 = s\<lparr>currentIndex := currentIndex s - 1\<rparr>
     in if currentIndex s1 < 1
        then s1\<lparr>currentIndex := 13, currentType := flipType (currentType s1)\<rparr>
        else s1)"

text \<open>
  \<^verbatim>\<open>randomContent\<close>, given the two numbers that \<^verbatim>\<open>Math.random()\<close> returns. The
  product with 13 is the real one; the double product of the code rounds, and where it
  rounds up to a whole number the code's index is one more than the index here.
\<close>

definition randomContent :: "real \<Rightarrow> real \<Rightarrow> app \<Rightarrow> app" where
  "randomContent r1 r2 s =
     s\<lparr>currentIndex := \<lfloor>r1 * 13\<rfloor> + 1,
       currentType := (if r2 > 0.5 then ''jpg'' else ''gif'')\<rparr>"

section \<open>The frame loop\<close>

text \<open>
  One call of \<^verbatim>\<open>animate\<close> depends on four things outside the module: the clock
  (\<^verbatim>\<open>Date.now()\<close>), the camera's heading (\<^verbatim>\<open>camera.getWorldDirection\<close>), the random
  numbers drawn when the autopilot changes the content, and what the orbit controller's
  \<^verbatim>\<open>controls.update()\<close> does to the camera position and the orbit target. They are the
  environment of the call.
\<close>

record env =
  date_now :: real
  worldDirection :: vec3
  random1 :: real
  random2 :: real
  controls_update :: "vec3 \<times> vec3 \<Rightarrow> vec3 \<times> vec3"

text \<open>The vector operations of the library that the manual branch uses.\<close>

definition addScaledVector :: "vec3 \<Rightarrow> vec3 \<Rightarrow> real \<Rightarrow> vec3" where
  "addScaledVector v d k = \<lparr> vx = vx v + vx d * k, vy = vy v + vy d * k, vz = vz v + vz d * k \<rparr>"

definition add :: "vec3 \<Rightarrow> vec3 \<Rightarrow> vec3" where
  "add v d = \<lparr> vx = vx v + vx d, vy = vy v + vy d, vz = vz v + vz d \<rparr>"

definition normalize :: "vec3 \<Rightarrow> vec3" where
  "normalize v =
    (let l = sqrt (vx v * vx v + vy v * vy v + vz v * vz v);
         k = 1 / (if l = 0 then 1 else l)
     in \<lparr> vx = vx v * k, vy = vy v * k, vz = vz v * k \<rparr>)"

definition crossVectors :: "vec3 \<Rightarrow> vec3 \<Rightarrow> vec3" where
  "crossVectors a b =
     \<lparr> vx = vy a * vz b - vz a * vy b,
       vy = vz a * vx b - vx a * vz b,
       vz = vx a * vy b - vy a * vx b \<rparr>"

definition camera_up :: vec3 where
  "camera_up = \<lparr> vx = 0, vy = 1, vz = 0 \<rparr>"

text \<open>Lines 369 to 394: the autopilot branch.\<close>

definition autopilot_step :: "env \<Rightarrow> app \<Rightarrow> app" where
  "autopilot_step e s =
    (let s1 = s\<lparr>autopilotTime := autopilotTime s + 0.01,
                autopilotContentTimer := autopilotContentTimer s + 0.016\<rparr>;
         s2 = (if autopilotContentTimer s1 \<ge> 8
               then (randomContent (random1 e) (random2 e) s1)\<lparr>autopilotContentTimer := 0\<rparr>
               else s1);
         a = autopilotTime s2;
         radius = 8 + sin (a * 0.3) * 3;
         height = PLAYER_HEIGHT + sin (a * 0.5) * 2;
         angle = a * 0.15
     in s2\<lparr>camera_position :=
            \<lparr> vx = cos angle * radius, vy = height, vz = sin angle * radius + 2 \<rparr>,
          controls_target :=
            \<lparr> vx = sin (a * 0.2) * 0.5,
              vy = PLAYER_HEIGHT + 0.5 + cos (a * 0.3) * 0.3,
              vz = - 2 + sin (a * 0.25) * 0.2 \<rparr>\<rparr>)"

text \<open>Lines 396 to 418: the manual branch.\<close>

definition manual_step :: "env \<Rightarrow> app \<Rightarrow> app" where
  "manual_step e s =
    (let m = moveState s
     in if m ''forward'' \<or> m ''backward'' \<or> m ''left'' \<or> m ''right'' \<or> m ''up'' \<or> m ''down''
        then
          (let dir = normalize ((worldDirection e)\<lparr>vy := 0\<rparr>);
               side = normalize (crossVectors camera_up dir);
               v0 = \<lparr> vx = 0, vy = 0, vz = 0 \<rparr>;
               v1 = (if m ''forward'' then addScaledVector v0 dir moveSpeed else v0);
               v2 = (if m ''backward'' then addScaledVector v1 dir (- moveSpeed) else v1);
               v3 = (if m ''left'' then addScaledVector v2 side moveSpeed else v2);
               v4 = (if m ''right'' then addScaledVector v3 side (- moveSpeed) else v3);
               v5 = (if m ''up'' then v4\<lparr>vy := vy v4 + moveSpeed\<rparr> else v4);
               v6 = (if m ''down'' then v5\<lparr>vy := vy v5 - moveSpeed\<rparr> else v5)
           in s\<lparr>camera_position := add (camera_position s) v6,
                controls_target := add (controls_target s) v6\<rparr>)
        else s)"

text \<open>Lines 424 to 440: one light of the \<^verbatim>\<open>forEach\<close>, \<open>i\<close> its position in the list.\<close>

definition breathe :: "noaa \<Rightarrow> jsnum \<Rightarrow> nat \<Rightarrow> light \<Rightarrow> light" where
  "breathe d time i l =
    (let breathSpeed = Fin 1.5 + jdiv (kp d) (Fin 3);
         breathDepth = Fin 0.2 + stormLevel d * Fin 0.3;
         pulse = Math_sin (time * breathSpeed + Fin (real i * 2)) * breathDepth
                 + (Fin 1 - jdiv breathDepth (Fin 2));
         l1 = l\<lparr>intensity := baseIntensity l * pulse\<rparr>
     in if startsWith (recentFlare d) CHR ''X''
        then l1\<lparr>intensity := intensity l1 * (Math_sin (time * Fin 8) * Fin 0.5 + Fin 1.5)\<rparr>
        else if startsWith (recentFlare d) CHR ''M''
        then l1\<lparr>intensity := intensity l1 * (Math_sin (time * Fin 5) * Fin 0.3 + Fin 1.2)\<rparr>
        else l1)"

text \<open>Lines 443 to 481: the reactive frame.\<close>

definition frame_step :: "noaa \<Rightarrow> jsnum \<Rightarrow> frame \<Rightarrow> frame" where
  "frame_step d time f =
    (let f1 =
          (if jlt (bz d) (Fin (- 5))
           then f\<lparr>emissive := 0xff3300,
                  emissiveIntensity := Fin 0.3 + Math_sin (time * Fin 2) * Fin 0.2\<rparr>
           else if jgt (bz d) (Fin 5)
           then f\<lparr>emissive := 0x0066ff,
                  emissiveIntensity := Fin 0.15 + Math_sin (time * Fin 1) * Fin 0.1\<rparr>
           else if jgt (kp d) (Fin 5)
           then f\<lparr>emissive := 0x9933ff,
                  emissiveIntensity := Fin 0.4 + Math_sin (time * Fin 3) * Fin 0.3\<rparr>
           else if jgt (ssn d) (Fin 100)
           then f\<lparr>emissive := 0xffaa00,
                  emissiveIntensity := Fin 0.2 + Math_sin (time * Fin 1.5) * Fin 0.15\<rparr>
           else f\<lparr>emissive := 0x003344,
                  emissiveIntensity := Fin 0.05 + Math_sin (time * Fin 0.5) * Fin 0.05\<rparr>);
         f2 =
          (if jgt (radiationLevel d) (Fin 0.3)
           then f1\<lparr>frame_rotation_z := Math_sin (time * Fin 20) * radiationLevel d * Fin 0.02\<rparr>
           else f1\<lparr>frame_rotation_z := Fin 0\<rparr>);
         drift = jdiv (solarWind d - Fin 400) (Fin 10000)
     in f2\<lparr>frame_position_y := baseY f2 + Math_sin (time * Fin 0.3) * drift * Fin 0.5\<rparr>)"

text \<open>Lines 484 to 489: the dust.\<close>

definition dust_step :: "noaa \<Rightarrow> jsnum \<Rightarrow> dust \<Rightarrow> dust" where
  "dust_step d time p =
    (let driftSpeed = jdiv (solarWind d - Fin 400) (Fin 1000)
     in p\<lparr>dust_position_y := Math_sin (time * Fin 0.5) * Fin 0.2,
          dust_rotation_y := dust_rotation_y p + (Fin 0.001 + driftSpeed),
          dust_opacity := Fin 0.2 + stormLevel d * Fin 0.3\<rparr>)"

text \<open>Lines 492 to 501: the star field.\<close>

definition star_step :: "noaa \<Rightarrow> jsnum \<Rightarrow> stars \<Rightarrow> stars" where
  "star_step d time p =
    (let starSpeed = Fin 0.0003 + jdiv (ssn d) (Fin 50000);
         p1 = p\<lparr>star_rotation_y := star_rotation_y p + starSpeed,
                star_position_z := star_position_z p + Math_sin time * Fin 0.15\<rparr>
     in if jgt (radiationLevel d) (Fin 0.3)
        then p1\<lparr>star_opacity :=
                  Fin 0.4 + Math_sin (time * Fin 10) * radiationLevel d * Fin 0.2\<rparr>
        else p1\<lparr>star_opacity := Fin 0.4\<rparr>)"

text \<open>Lines 422 to 508: the effects, gated by \<^verbatim>\<open>isDynamic\<close>.\<close>

definition dynamics :: "jsnum \<Rightarrow> app \<Rightarrow> app" where
  "dynamics time s =
    (let d = noaaData s
     in if isDynamic s
        then s\<lparr>lights_left := map_option (breathe d time 0) (lights_left s),
               lights_center := map_option (breathe d time 1) (lights_center s),
               lights_right := map_option (breathe d time 2) (lights_right s),
               reactiveFrame := map_option (frame_step d time) (reactiveFrame s),
               dustParticles := map_option (dust_step d time) (dustParticles s),
               starField := star_step d time (starField s),
               ambientLight := Fin 0.03 + stormLevel d * Fin 0.05\<rparr>
        else s\<lparr>starField :=
                 (starField s)\<lparr>star_rotation_y := star_rotation_y (starField s) + Fin 0.0002\<rparr>\<rparr>)"

text \<open>
  \<^verbatim>\<open>animate\<close>: navigation, effects, then \<^verbatim>\<open>controls.update()\<close>. Scheduling the next
  frame and drawing change nothing in the state.
\<close>

definition animate :: "env \<Rightarrow> app \<Rightarrow> app" where
  "animate e s =
    (let time = Fin (date_now e * 0.001);
         s1 = (if isAutopilot s then autopilot_step e s else manual_step e s);
         s2 = dynamics time s1;
         (c, t) = controls_update e (camera_position s2, controls_target s2)
     in s2\<lparr>camera_position := c, controls_target := t\<rparr>)"

text \<open>A run of frames, the environment of each call given in order.\<close>

definition frames :: "env list \<Rightarrow> app \<Rightarrow> app" where
  "frames es s = foldl (\<lambda>u e. animate e u) s es"

section \<open>Concrete refreshes and the unit interval\<close>

text \<open>A derived level lies in the unit interval when it is a finite number from 0 to 1.\<close>

definition in_unit :: "jsnum \<Rightarrow> bool" where
  "in_unit u = (case u of Fin a \<Rightarrow> 0 \<le> a \<and> a \<le> 1 | _ \<Rightarrow> False)"

text \<open>
  Refreshes used as concrete inputs below: only the proton query answers, with a flux of 5
  and with a flux that is not a number; every numeric query answers with a value that is
  not a number; the extreme values of the specification; negative readings.
\<close>

definition r_five :: responses where
  "r_five = no_data\<lparr>rProton := Some [\<lparr>flux = Fin 5\<rparr>]\<rparr>"

definition r_unparsed :: responses where
  "r_unparsed = no_data\<lparr>rProton := Some [\<lparr>flux = NaN\<rparr>]\<rparr>"

definition r_nan :: responses where
  "r_nan = \<lparr> rSSN = Some [\<lparr>predicted_ssn = None\<rparr>], rProton = Some [\<lparr>flux = NaN\<rparr>],
     rFlare = None, rKp = Some [\<lparr>kp_index = NaN\<rparr>],
     rWind = Some [\<lparr>wind_speed = NaN, wind_bz = NaN\<rparr>], rElectron = Some [\<lparr>flux = NaN\<rparr>] \<rparr>"

text \<open>Every query answers with an empty series.\<close>

definition r_empty :: responses where
  "r_empty = \<lparr> rSSN = Some [], rProton = Some [], rFlare = Some [], rKp = Some [],
     rWind = Some [], rElectron = Some [] \<rparr>"

definition r_extreme :: responses where
  "r_extreme = no_data\<lparr> rProton := Some [\<lparr>flux = Fin 1000000000\<rparr>],
     rFlare := Some [\<lparr>current_class = Some ''X9.9'', max_class = None\<rparr>],
     rKp := Some [\<lparr>kp_index = Fin 9\<rparr>],
     rWind := Some [\<lparr>wind_speed = Fin 400, wind_bz = Fin (- 100)\<rparr>] \<rparr>"

definition r_negative :: responses where
  "r_negative = no_data\<lparr> rProton := Some [\<lparr>flux = Fin (- 2)\<rparr>],
     rKp := Some [\<lparr>kp_index = Fin (- 9)\<rparr>] \<rparr>"

text \<open>
  The snapshot of the specification's example (\<open>kp\<close> 9, \<open>bz\<close> -10, sunspot number 50,
  proton flux 1, flare class X5.0); a refresh with ordinary readings, all different from
  the seed defaults; and a refresh in which every numeric value reads as 0.
\<close>

definition r_example :: responses where
  "r_example = no_data\<lparr> rSSN := Some [\<lparr>predicted_ssn = Some 50\<rparr>],
     rProton := Some [\<lparr>flux = Fin 1\<rparr>],
     rFlare := Some [\<lparr>current_class = Some ''X5.0'', max_class = None\<rparr>],
     rKp := Some [\<lparr>kp_index = Fin 9\<rparr>],
     rWind := Some [\<lparr>wind_speed = Fin 400, wind_bz = Fin (- 10)\<rparr>] \<rparr>"

definition r_readings :: responses where
  "r_readings = \<lparr> rSSN = Some [\<lparr>predicted_ssn = Some 80\<rparr>], rProton = Some [\<lparr>flux = Fin 5\<rparr>],
     rFlare = None, rKp = Some [\<lparr>kp_index = Fin 4\<rparr>],
     rWind = Some [\<lparr>wind_speed = Fin 600, wind_bz = Fin 3\<rparr>],
     rElectron = Some [\<lparr>flux = Fin 250\<rparr>] \<rparr>"


text \<open>
  A concrete frame: the clock at one second, the camera looking down the negative z axis,
  an orbit controller at rest.
\<close>

definition env0 :: env where
  "env0 = \<lparr> date_now = 1000, worldDirection = \<lparr> vx = 0, vy = 0, vz = - 1 \<rparr>,
     random1 = 0.5, random2 = 0.25, controls_update = (\<lambda>p. p) \<rparr>"

section \<open>The refresh: raw fields\<close>

lemma noaaData_updateLightsFromNOAA [simp]:
  "noaaData (updateLightsFromNOAA s) = noaaData s"
  by (simp add: updateLightsFromNOAA_def Let_def)

lemma noaaData_updateSpaceWeather:
  "noaaData (updateSpaceWeather r s) = update_derived (update_raw r (noaaData s))"
  by (simp add: updateSpaceWeather_def)

lemma app0_noaa [simp]: "noaaData app0 = noaaData0"
  by (simp add: app0_def)

lemma update_derived_raw [simp]:
  "ssn (update_derived d) = ssn d"
  "kp (update_derived d) = kp d"
  "bz (update_derived d) = bz d"
  "solarWind (update_derived d) = solarWind d"
  "protonFlux (update_derived d) = protonFlux d"
  "electronFlux (update_derived d) = electronFlux d"
  "recentFlare (update_derived d) = recentFlare d"
  by (simp_all add: update_derived_def Let_def)

lemma update_derived_levels:
  "radiationLevel (update_derived d) =
     Math_min (Fin 1)
       (jdiv (Math_log10 (protonFlux d + Fin 1)) (Fin 5) + flareBoost (recentFlare d))"
  "stormLevel (update_derived d) =
     Math_min (Fin 1)
       (jdiv (kp d) (Fin 9)
        + (if jlt (bz d) (Fin 0) then jdiv (Math_abs (bz d)) (Fin 20) else Fin 0))"
  by (simp_all add: update_derived_def Let_def)

lemma update_raw_fields:
  "ssn (update_raw r d) =
     (case rSSN r of None \<Rightarrow> ssn d
      | Some es \<Rightarrow>
          num_or_else (case last_elem es of None \<Rightarrow> None | Some e \<Rightarrow> predicted_ssn e)
            (Fin 50))"
  "protonFlux (update_raw r d) =
     (case rProton r of None \<Rightarrow> protonFlux d
      | Some es \<Rightarrow> or_else (parseFloat (map_option flux (last_elem es))) (Fin 1))"
  "kp (update_raw r d) =
     (case rKp r of None \<Rightarrow> kp d
      | Some es \<Rightarrow> or_else (parseFloat (map_option kp_index (last_elem es))) (Fin 2))"
  "solarWind (update_raw r d) =
     (case rWind r of None \<Rightarrow> solarWind d
      | Some es \<Rightarrow> if es = [] then solarWind d
                  else or_else (parseFloat (Some (wind_speed (last es)))) (Fin 400))"
  "bz (update_raw r d) =
     (case rWind r of None \<Rightarrow> bz d
      | Some es \<Rightarrow> if es = [] then bz d
                  else or_else (parseFloat (Some (wind_bz (last es)))) (Fin 0))"
  "electronFlux (update_raw r d) =
     (case rElectron r of None \<Rightarrow> electronFlux d
      | Some es \<Rightarrow> or_else (parseFloat (map_option flux (last_elem es))) (Fin 100))"
  "recentFlare (update_raw r d) =
     (case rFlare r of None \<Rightarrow> recentFlare d
      | Some es \<Rightarrow> if es = [] then recentFlare d
                  else str_or_else (current_class (last es))
                         (str_or_else (max_class (last es)) ''None''))"
  by (simp_all add: update_raw_def Let_def split: option.splits)

lemma or_else_NaN [simp]: "or_else NaN v = v"
  by (simp add: or_else_def)

lemma or_else_zero [simp]: "or_else (Fin 0) v = v"
  by (simp add: or_else_def)

lemma or_else_not_NaN: "v \<noteq> NaN \<Longrightarrow> or_else u v \<noteq> NaN"
  by (cases u) (simp_all add: or_else_def)

text \<open>
  C1, as the code has it. A field whose query failed keeps the value it had before the
  refresh; so do \<open>bz\<close> and \<open>solarWind\<close> when the wind query answers with an empty
  series. A field does not keep its value when its query answers and the value of the last
  entry reads as \<open>NaN\<close> under \<^verbatim>\<open>parseFloat\<close> (for the sunspot number, which is not
  parsed: is missing), nor, for the sunspot number, \<open>kp\<close>, the proton flux and the
  electron flux, when the query answers with an empty series: the field becomes its seed
  default, 50, 2, 0, 400, 1 and 100.
\<close>

theorem failed_query_keeps_parse_failure_defaults:
  "(rSSN r = None \<longrightarrow> ssn (noaaData (updateSpaceWeather r s)) = ssn (noaaData s)) \<and>
   (rKp r = None \<longrightarrow> kp (noaaData (updateSpaceWeather r s)) = kp (noaaData s)) \<and>
   (rWind r = None \<or> rWind r = Some [] \<longrightarrow>
      bz (noaaData (updateSpaceWeather r s)) = bz (noaaData s)
      \<and> solarWind (noaaData (updateSpaceWeather r s)) = solarWind (noaaData s)) \<and>
   (rProton r = None \<longrightarrow>
      protonFlux (noaaData (updateSpaceWeather r s)) = protonFlux (noaaData s)) \<and>
   (rElectron r = None \<longrightarrow>
      electronFlux (noaaData (updateSpaceWeather r s)) = electronFlux (noaaData s)) \<and>
   (\<forall>es. rSSN r = Some es \<and> (es = [] \<or> predicted_ssn (last es) = None) \<longrightarrow>
      ssn (noaaData (updateSpaceWeather r s)) = Fin 50) \<and>
   (\<forall>es. rKp r = Some es \<and> (es = [] \<or> kp_index (last es) = NaN) \<longrightarrow>
      kp (noaaData (updateSpaceWeather r s)) = Fin 2) \<and>
   (\<forall>es. rWind r = Some es \<and> es \<noteq> [] \<and> wind_bz (last es) = NaN \<longrightarrow>
      bz (noaaData (updateSpaceWeather r s)) = Fin 0) \<and>
   (\<forall>es. rWind r = Some es \<and> es \<noteq> [] \<and> wind_speed (last es) = NaN \<longrightarrow>
      solarWind (noaaData (updateSpaceWeather r s)) = Fin 400) \<and>
   (\<forall>es. rProton r = Some es \<and> (es = [] \<or> flux (last es) = NaN) \<longrightarrow>
      protonFlux (noaaData (updateSpaceWeather r s)) = Fin 1) \<and>
   (\<forall>es. rElectron r = Some es \<and> (es = [] \<or> flux (last es) = NaN) \<longrightarrow>
      electronFlux (noaaData (updateSpaceWeather r s)) = Fin 100)"
  by (auto simp add: noaaData_updateSpaceWeather update_raw_fields last_elem_def parseFloat_def
      num_or_else_def)

lemma r_readings_raw:
  "protonFlux (noaaData (refreshes [r_readings])) = Fin 5"
  "solarWind (noaaData (refreshes [r_readings])) = Fin 600"
  "kp (noaaData (refreshes [r_readings])) = Fin 4"
  "electronFlux (noaaData (refreshes [r_readings])) = Fin 250"
  "ssn (noaaData (refreshes [r_readings])) = Fin 80"
  "bz (noaaData (refreshes [r_readings])) = Fin 3"
  by (simp_all add: refreshes_def noaaData_updateSpaceWeather update_raw_fields r_readings_def
      last_elem_def parseFloat_def or_else_def num_or_else_def)

text \<open>
  The theorem at three refreshes after a first one that stored the readings 80, 4, 3, 600,
  5 and 250: one in which every query fails, one in which every numeric value is not a
  number, and one in which every query answers with an empty series.
\<close>

theorem failed_query_keeps_parse_failure_defaults_witness:
  "(ssn (noaaData (updateSpaceWeather no_data (refreshes [r_readings]))) = Fin 80 \<and>
    kp (noaaData (updateSpaceWeather no_data (refreshes [r_readings]))) = Fin 4 \<and>
    bz (noaaData (updateSpaceWeather no_data (refreshes [r_readings]))) = Fin 3 \<and>
    solarWind (noaaData (updateSpaceWeather no_data (refreshes [r_readings]))) = Fin 600 \<and>
    protonFlux (noaaData (updateSpaceWeather no_data (refreshes [r_readings]))) = Fin 5 \<and>
    electronFlux (noaaData (updateSpaceWeather no_data (refreshes [r_readings]))) = Fin 250) \<and>
   (ssn (noaaData (updateSpaceWeather r_nan (refreshes [r_readings]))) = Fin 50 \<and>
    kp (noaaData (updateSpaceWeather r_nan (refreshes [r_readings]))) = Fin 2 \<and>
    bz (noaaData (updateSpaceWeather r_nan (refreshes [r_readings]))) = Fin 0 \<and>
    solarWind (noaaData (updateSpaceWeather r_nan (refreshes [r_readings]))) = Fin 400 \<and>
    protonFlux (noaaData (updateSpaceWeather r_nan (refreshes [r_readings]))) = Fin 1 \<and>
    electronFlux (noaaData (updateSpaceWeather r_nan (refreshes [r_readings]))) = Fin 100) \<and>
   (ssn (noaaData (updateSpaceWeather r_empty (refreshes [r_readings]))) = Fin 50 \<and>
    kp (noaaData (updateSpaceWeather r_empty (refreshes [r_readings]))) = Fin 2 \<and>
    bz (noaaData (updateSpaceWeather r_empty (refreshes [r_readings]))) = Fin 3 \<and>
    solarWind (noaaData (updateSpaceWeather r_empty (refreshes [r_readings]))) = Fin 600 \<and>
    protonFlux (noaaData (updateSpaceWeather r_empty (refreshes [r_readings]))) = Fin 1 \<and>
    electronFlux (noaaData (updateSpaceWeather r_empty (refreshes [r_readings]))) = Fin 100)"
  using failed_query_keeps_parse_failure_defaults [of no_data "refreshes [r_readings]"]
    failed_query_keeps_parse_failure_defaults [of r_nan "refreshes [r_readings]"]
    failed_query_keeps_parse_failure_defaults [of r_empty "refreshes [r_readings]"]
    r_readings_raw
  by (simp add: no_data_def r_nan_def r_empty_def)

text \<open>
  C1 as stated fails: after a refresh stored the proton flux 5, a refresh whose proton
  value is not a number leaves 1 in the field, not 5.
\<close>

theorem parse_failure_does_not_keep_value:
  "protonFlux (noaaData (refreshes [r_five])) = Fin 5 \<and>
   protonFlux (noaaData (updateSpaceWeather r_unparsed (refreshes [r_five]))) = Fin 1 \<and>
   protonFlux (noaaData (updateSpaceWeather r_unparsed (refreshes [r_five])))
     \<noteq> protonFlux (noaaData (refreshes [r_five]))"
  by (simp add: refreshes_def noaaData_updateSpaceWeather update_raw_fields r_five_def
      r_unparsed_def no_data_def last_elem_def parseFloat_def or_else_def noaaData0_def)

section \<open>The refresh: derived fields\<close>

lemma Math_min_Fin [simp]: "Math_min (Fin a) (Fin b) = Fin (min a b)"
  by (simp add: Math_min_def min_def)

lemma flareBoost_cases:
  "flareBoost f = Fin 0.8 \<or> flareBoost f = Fin 0.3 \<or> flareBoost f = Fin 0"
  by (simp add: flareBoost_def)

lemma storm_in_unit:
  assumes "0 \<le> k"
  shows "in_unit (Math_min (Fin 1)
       (jdiv (Fin k) (Fin 9)
        + (if jlt (Fin b) (Fin 0) then jdiv (Math_abs (Fin b)) (Fin 20) else Fin 0)))"
  using assms by (simp add: in_unit_def jsnum_arith)

lemma radiation_in_unit:
  assumes "0 \<le> p"
  shows "in_unit (Math_min (Fin 1) (jdiv (Math_log10 (Fin p + Fin 1)) (Fin 5) + flareBoost f))"
proof -
  have "0 \<le> log 10 (p + 1)"
    using assms by simp
  then show ?thesis
    using assms flareBoost_cases [of f] by (auto simp add: in_unit_def jsnum_arith)
qed

text \<open>
  C2, as the code has it. The levels are clamped from above only, so the bound from below
  needs readings that are not negative: when the refresh leaves a finite \<open>kp\<close> and a finite
  \<open>protonFlux\<close>, both at least 0, and a finite \<open>bz\<close>, then with any flare class
  \<open>stormLevel\<close> and \<open>radiationLevel\<close> lie in the unit interval.
\<close>

theorem levels_in_unit_interval:
  assumes "kp (noaaData (updateSpaceWeather r s)) = Fin k" and "0 \<le> k"
    and "bz (noaaData (updateSpaceWeather r s)) = Fin b"
    and "protonFlux (noaaData (updateSpaceWeather r s)) = Fin p" and "0 \<le> p"
  shows "in_unit (stormLevel (noaaData (updateSpaceWeather r s))) \<and>
         in_unit (radiationLevel (noaaData (updateSpaceWeather r s)))"
proof -
  let ?d = "update_raw r (noaaData s)"
  have raw: "kp ?d = Fin k" "bz ?d = Fin b" "protonFlux ?d = Fin p"
    using assms by (simp_all add: noaaData_updateSpaceWeather)
  have "in_unit (stormLevel (update_derived ?d))"
    unfolding update_derived_levels raw by (rule storm_in_unit [OF \<open>0 \<le> k\<close>])
  moreover have "in_unit (radiationLevel (update_derived ?d))"
    unfolding update_derived_levels raw by (rule radiation_in_unit [OF \<open>0 \<le> p\<close>])
  ultimately show ?thesis
    by (simp add: noaaData_updateSpaceWeather)
qed

lemma r_extreme_raw:
  "kp (noaaData (updateSpaceWeather r_extreme app0)) = Fin 9"
  "bz (noaaData (updateSpaceWeather r_extreme app0)) = Fin (- 100)"
  "protonFlux (noaaData (updateSpaceWeather r_extreme app0)) = Fin 1000000000"
  by (simp_all add: noaaData_updateSpaceWeather update_raw_fields r_extreme_def no_data_def
      last_elem_def parseFloat_def or_else_def)

text \<open>The theorem at the extreme values: \<open>kp\<close> 9, \<open>bz\<close> -100, a proton flux of \<open>10\<^sup>9\<close>.\<close>

theorem levels_in_unit_interval_witness:
  "kp (noaaData (updateSpaceWeather r_extreme app0)) = Fin 9 \<and> (0::real) \<le> 9 \<and>
   bz (noaaData (updateSpaceWeather r_extreme app0)) = Fin (- 100) \<and>
   protonFlux (noaaData (updateSpaceWeather r_extreme app0)) = Fin 1000000000 \<and>
   (0::real) \<le> 1000000000 \<and>
   in_unit (stormLevel (noaaData (updateSpaceWeather r_extreme app0))) \<and>
   in_unit (radiationLevel (noaaData (updateSpaceWeather r_extreme app0)))"
  using levels_in_unit_interval [OF r_extreme_raw(1) _ r_extreme_raw(2) r_extreme_raw(3)]
    r_extreme_raw
  by simp

text \<open>
  C2 as stated fails on finite readings that are negative: a \<open>kp\<close> of -9 gives the storm
  level -1, and a proton flux of -2 gives a radiation level that is not a number.
\<close>

theorem negative_readings_leave_unit_interval:
  "stormLevel (noaaData (updateSpaceWeather r_negative app0)) = Fin (- 1) \<and>
   radiationLevel (noaaData (updateSpaceWeather r_negative app0)) = NaN \<and>
   \<not> in_unit (stormLevel (noaaData (updateSpaceWeather r_negative app0))) \<and>
   \<not> in_unit (radiationLevel (noaaData (updateSpaceWeather r_negative app0)))"
  by (simp add: noaaData_updateSpaceWeather update_raw_fields update_derived_levels
      r_negative_def no_data_def last_elem_def parseFloat_def or_else_def noaaData0_def
      in_unit_def jsnum_arith Math_min_def flareBoost_def)

lemma bz_update_raw_not_NaN: "bz d \<noteq> NaN \<Longrightarrow> bz (update_raw r d) \<noteq> NaN"
  by (simp add: update_raw_fields parseFloat_def or_else_not_NaN split: option.splits)

lemma bz_refreshes_not_NaN: "bz (noaaData (refreshes rs)) \<noteq> NaN"
proof (induction rs rule: rev_induct)
  case Nil
  show ?case by (simp add: refreshes_def noaaData0_def)
next
  case (snoc r rs)
  then show ?case
    by (simp add: refreshes_def noaaData_updateSpaceWeather bz_update_raw_not_NaN)
qed

lemma storm_term_max:
  "u \<noteq> NaN \<Longrightarrow>
   (if jlt u (Fin 0) then jdiv (Math_abs u) (Fin 20) else Fin 0)
     = jdiv (Math_max (Fin 0) (- u)) (Fin 20)"
  by (cases u) (auto simp add: Math_max_def jsnum_arith)

text \<open>
  C3. After any refresh, in any state that refreshes lead to from the initial one, the
  stored levels are \<open>radiationLevel = min(1, log10(protonFlux + 1) / 5 + flareBoost)\<close>, the
  boost 0.8 for a class that starts with X, 0.3 for one that starts with M and 0 otherwise,
  and \<open>stormLevel = min(1, kp / 9 + max(0, - bz) / 20)\<close>, on the raw fields the refresh
  leaves. The refresh that stores \<open>kp\<close> 9, \<open>bz\<close> -10, proton flux 1 and flare class X5.0
  stores the storm level 1 and the radiation level \<open>min(1, log10(2) / 5 + 0.8)\<close>.
\<close>

theorem derived_fields_formula:
  "radiationLevel (noaaData (updateSpaceWeather r (refreshes rs))) =
     Math_min (Fin 1)
       (jdiv (Math_log10 (protonFlux (noaaData (updateSpaceWeather r (refreshes rs))) + Fin 1))
          (Fin 5)
        + (if startsWith (recentFlare (noaaData (updateSpaceWeather r (refreshes rs)))) CHR ''X''
           then Fin 0.8
           else if startsWith (recentFlare (noaaData (updateSpaceWeather r (refreshes rs))))
                     CHR ''M''
           then Fin 0.3 else Fin 0)) \<and>
   stormLevel (noaaData (updateSpaceWeather r (refreshes rs))) =
     Math_min (Fin 1)
       (jdiv (kp (noaaData (updateSpaceWeather r (refreshes rs)))) (Fin 9)
        + jdiv (Math_max (Fin 0) (- bz (noaaData (updateSpaceWeather r (refreshes rs)))))
            (Fin 20)) \<and>
   kp (noaaData (updateSpaceWeather r_example app0)) = Fin 9 \<and>
   bz (noaaData (updateSpaceWeather r_example app0)) = Fin (- 10) \<and>
   protonFlux (noaaData (updateSpaceWeather r_example app0)) = Fin 1 \<and>
   recentFlare (noaaData (updateSpaceWeather r_example app0)) = ''X5.0'' \<and>
   stormLevel (noaaData (updateSpaceWeather r_example app0)) = Fin 1 \<and>
   radiationLevel (noaaData (updateSpaceWeather r_example app0))
     = Fin (min 1 (log 10 2 / 5 + 0.8))"
proof -
  let ?d = "update_raw r (noaaData (refreshes rs))"
  have "bz ?d \<noteq> NaN"
    by (rule bz_update_raw_not_NaN [OF bz_refreshes_not_NaN])
  then have storm: "stormLevel (update_derived ?d) =
     Math_min (Fin 1) (jdiv (kp ?d) (Fin 9) + jdiv (Math_max (Fin 0) (- bz ?d)) (Fin 20))"
    by (simp add: update_derived_levels storm_term_max)
  have rad: "radiationLevel (update_derived ?d) =
     Math_min (Fin 1) (jdiv (Math_log10 (protonFlux ?d + Fin 1)) (Fin 5)
       + (if startsWith (recentFlare ?d) CHR ''X'' then Fin 0.8
          else if startsWith (recentFlare ?d) CHR ''M'' then Fin 0.3 else Fin 0))"
    by (simp add: update_derived_levels flareBoost_def)
  have ex: "kp (update_raw r_example noaaData0) = Fin 9"
    "bz (update_raw r_example noaaData0) = Fin (- 10)"
    "protonFlux (update_raw r_example noaaData0) = Fin 1"
    "recentFlare (update_raw r_example noaaData0) = ''X5.0''"
    by (simp_all add: update_raw_fields r_example_def no_data_def last_elem_def parseFloat_def
        or_else_def str_or_else_def)
  have ex_levels: "stormLevel (update_derived (update_raw r_example noaaData0)) = Fin 1"
    "radiationLevel (update_derived (update_raw r_example noaaData0))
       = Fin (min 1 (log 10 2 / 5 + 0.8))"
    by (simp_all add: update_derived_levels ex flareBoost_def jsnum_arith)
  show ?thesis
    using storm rad ex ex_levels by (simp add: noaaData_updateSpaceWeather)
qed



section \<open>The content sequencer\<close>

lemma nextContent_index:
  "currentIndex (nextContent s) = (if currentIndex s = 13 then 1 else currentIndex s + 1)"
  if "1 \<le> currentIndex s" "currentIndex s \<le> 13"
  using that by (simp add: nextContent_def Let_def)

lemma nextContent_type:
  "currentType (nextContent s) =
     (if currentIndex s = 13 then flipType (currentType s) else currentType s)"
  if "currentIndex s \<le> 13"
  using that by (simp add: nextContent_def Let_def)

lemma prevContent_step:
  "currentIndex (prevContent s) = (if currentIndex s = 1 then 13 else currentIndex s - 1)"
  "currentType (prevContent s) =
     (if currentIndex s = 1 then flipType (currentType s) else currentType s)"
  if "1 \<le> currentIndex s"
  using that by (auto simp add: prevContent_def Let_def)

lemma flipType_neq: "flipType t \<noteq> t"
  by (simp add: flipType_def)

lemma nextContent_run:
  assumes "currentIndex s = 1" and "n < 13"
  shows "currentIndex ((nextContent ^^ n) s) = 1 + int n \<and>
         currentType ((nextContent ^^ n) s) = currentType s"
  using assms(2)
proof (induction n)
  case 0
  show ?case using assms(1) by simp
next
  case (Suc n)
  then have ih: "currentIndex ((nextContent ^^ n) s) = 1 + int n"
    "currentType ((nextContent ^^ n) s) = currentType s"
    by simp_all
  from Suc.prems ih(1) have "currentIndex ((nextContent ^^ n) s) < 13"
    by simp
  then show ?case
    using ih by (simp add: nextContent_index nextContent_type)
qed

lemma nextContent_range:
  assumes "1 \<le> currentIndex s" and "currentIndex s \<le> 13"
  shows "1 \<le> currentIndex ((nextContent ^^ n) s) \<and> currentIndex ((nextContent ^^ n) s) \<le> 13"
proof (induction n)
  case 0
  show ?case using assms by simp
next
  case (Suc n)
  then show ?case
    by (simp add: nextContent_index)
qed

text \<open>
  C4. From an index between 1 and 13, any number of forward advances leaves the index
  between 1 and 13. One forward advance adds 1 to the index, except that from 13 it goes to
  1, and it changes the type exactly then, to the other type. From index 1 the type is the
  same after each of the first twelve advances, and the thirteenth returns to index 1 with
  the type flipped. One backward advance subtracts 1, except that from 1 it goes to 13, and
  it flips the type exactly then.
\<close>

theorem content_sequencer_wraps:
  assumes "1 \<le> currentIndex s" and "currentIndex s \<le> 13"
  shows "(1 \<le> currentIndex ((nextContent ^^ n) s) \<and> currentIndex ((nextContent ^^ n) s) \<le> 13) \<and>
    currentIndex (nextContent s) = (if currentIndex s = 13 then 1 else currentIndex s + 1) \<and>
    currentType (nextContent s)
      = (if currentIndex s = 13 then flipType (currentType s) else currentType s) \<and>
    flipType (currentType s) \<noteq> currentType s \<and>
    (currentIndex s = 1 \<longrightarrow>
       (\<forall>k<13. currentType ((nextContent ^^ k) s) = currentType s) \<and>
       currentIndex ((nextContent ^^ 13) s) = 1 \<and>
       currentType ((nextContent ^^ 13) s) = flipType (currentType s)) \<and>
    currentIndex (prevContent s) = (if currentIndex s = 1 then 13 else currentIndex s - 1) \<and>
    currentType (prevContent s)
      = (if currentIndex s = 1 then flipType (currentType s) else currentType s)"
proof -
  have thirteen: "currentIndex ((nextContent ^^ 13) s) = 1 \<and>
       currentType ((nextContent ^^ 13) s) = flipType (currentType s)"
    if one: "currentIndex s = 1"
  proof -
    have "(nextContent ^^ 13) s = nextContent ((nextContent ^^ 12) s)"
      by (simp add: numeral_eq_Suc)
    moreover have "currentIndex ((nextContent ^^ 12) s) = 13"
      "currentType ((nextContent ^^ 12) s) = currentType s"
      using nextContent_run [OF one, of 12] by simp_all
    ultimately show ?thesis
      by (simp add: nextContent_index nextContent_type)
  qed
  show ?thesis
    using assms nextContent_range [OF assms, of n] thirteen
    by (simp add: nextContent_index nextContent_type flipType_neq nextContent_run
        prevContent_step)
qed

text \<open>The theorem at the initial state, index 1 of type jpg, with 40 advances.\<close>

theorem content_sequencer_wraps_witness:
  "1 \<le> currentIndex app0 \<and> currentIndex app0 \<le> 13 \<and> currentIndex app0 = 1 \<and>
   1 \<le> currentIndex ((nextContent ^^ 40) app0) \<and>
   currentIndex ((nextContent ^^ 40) app0) \<le> 13 \<and>
   currentIndex (nextContent app0) = 2 \<and>
   currentType (nextContent app0) = ''jpg'' \<and>
   currentType ((nextContent ^^ 12) app0) = ''jpg'' \<and>
   currentIndex ((nextContent ^^ 13) app0) = 1 \<and>
   currentType ((nextContent ^^ 13) app0) = ''gif'' \<and>
   currentIndex (prevContent app0) = 13 \<and>
   currentType (prevContent app0) = ''gif''"
proof -
  have a: "1 \<le> currentIndex app0" "currentIndex app0 \<le> 13" "currentIndex app0 = 1"
    "currentType app0 = ''jpg''"
    by (simp_all add: app0_def)
  have "currentType ((nextContent ^^ 12) app0) = currentType app0"
    using content_sequencer_wraps [OF a(1) a(2), of 40] a(3) by simp
  then show ?thesis
    using content_sequencer_wraps [OF a(1) a(2), of 40] a by (simp add: flipType_def)
qed

section \<open>The navigation mode and the effects switch\<close>

text \<open>
  C5, as the code has it. \<^verbatim>\<open>toggleAutopilot\<close> does not touch the move flags, in either
  direction and so also from the autopilot to manual: every flag is after the toggle what
  it was before. After \<^verbatim>\<open>stopCamera\<close> each of forward, backward, left, right, up and
  down is inactive.
\<close>

theorem toggle_keeps_move_flags:
  "moveState (toggleAutopilot s) = moveState s \<and>
   \<not> moveState (stopCamera s) ''forward'' \<and> \<not> moveState (stopCamera s) ''backward'' \<and>
   \<not> moveState (stopCamera s) ''left'' \<and> \<not> moveState (stopCamera s) ''right'' \<and>
   \<not> moveState (stopCamera s) ''up'' \<and> \<not> moveState (stopCamera s) ''down''"
  by (simp add: toggleAutopilot_def stopCamera_def Let_def)

text \<open>
  C5 as stated fails: with the forward flag set while the autopilot is on, toggling out of
  the autopilot leaves the flag set.
\<close>

theorem leaving_autopilot_keeps_forward_flag:
  "isAutopilot (moveCamera ''forward'' (toggleAutopilot app0)) \<and>
   \<not> isAutopilot (toggleAutopilot (moveCamera ''forward'' (toggleAutopilot app0))) \<and>
   moveState (toggleAutopilot (moveCamera ''forward'' (toggleAutopilot app0))) ''forward''"
  by (simp add: toggleAutopilot_def moveCamera_def app0_def Let_def)

text \<open>
  C6. A toggle of the navigation mode leaves the camera position and the orbit target as
  they are and inverts the mode; whenever the mode after the toggle is the autopilot, both
  clocks are 0.
\<close>

theorem toggle_keeps_camera_resets_clocks:
  "camera_position (toggleAutopilot s) = camera_position s \<and>
   controls_target (toggleAutopilot s) = controls_target s \<and>
   isAutopilot (toggleAutopilot s) = (\<not> isAutopilot s) \<and>
   (isAutopilot (toggleAutopilot s) \<longrightarrow>
      autopilotTime (toggleAutopilot s) = 0 \<and> autopilotContentTimer (toggleAutopilot s) = 0)"
  by (simp add: toggleAutopilot_def Let_def)

lemma autopilot_step_clocks:
  "autopilotTime (autopilot_step e s) = autopilotTime s + 0.01"
  "isAutopilot (autopilot_step e s) = isAutopilot s"
  by (simp_all add: autopilot_step_def randomContent_def Let_def)

lemma manual_step_mode: "isAutopilot (manual_step e s) = isAutopilot s"
  by (simp add: manual_step_def Let_def)

lemma dynamics_clocks:
  "autopilotTime (dynamics t s) = autopilotTime s"
  "isAutopilot (dynamics t s) = isAutopilot s"
  by (simp_all add: dynamics_def Let_def)

lemma animate_autopilot:
  "isAutopilot (animate e s) = isAutopilot s"
  "isAutopilot s \<Longrightarrow> autopilotTime (animate e s) = autopilotTime s + 0.01"
  by (simp_all add: animate_def dynamics_clocks autopilot_step_clocks manual_step_mode Let_def
      split: prod.splits)

text \<open>
  The theorem on a first entry into the autopilot, and on a re-entry after a frame has
  advanced the clock and the mode was left.
\<close>

theorem toggle_keeps_camera_resets_clocks_witness:
  "isAutopilot (toggleAutopilot app0) \<and>
   autopilotTime (toggleAutopilot app0) = 0 \<and>
   autopilotContentTimer (toggleAutopilot app0) = 0 \<and>
   camera_position (toggleAutopilot app0) = camera_position app0 \<and>
   controls_target (toggleAutopilot app0) = controls_target app0 \<and>
   autopilotTime (animate env0 (toggleAutopilot app0)) = 0.01 \<and>
   \<not> isAutopilot (toggleAutopilot (animate env0 (toggleAutopilot app0))) \<and>
   isAutopilot (toggleAutopilot (toggleAutopilot (animate env0 (toggleAutopilot app0)))) \<and>
   autopilotTime (toggleAutopilot (toggleAutopilot (animate env0 (toggleAutopilot app0)))) = 0 \<and>
   autopilotContentTimer
     (toggleAutopilot (toggleAutopilot (animate env0 (toggleAutopilot app0)))) = 0"
proof -
  have off: "\<not> isAutopilot app0"
    by (simp add: app0_def)
  show ?thesis
    using toggle_keeps_camera_resets_clocks [of app0]
      toggle_keeps_camera_resets_clocks [of "animate env0 (toggleAutopilot app0)"]
      toggle_keeps_camera_resets_clocks
        [of "toggleAutopilot (animate env0 (toggleAutopilot app0))"]
      off
    by (simp add: animate_autopilot)
qed

text \<open>
  C9, as the code has it. \<^verbatim>\<open>toggleFX\<close> is not idempotent: each application inverts
  the switch, so two applications give back the state before the first, and that state
  differs from the state after one application.
\<close>

theorem toggleFX_involution:
  "isDynamic (toggleFX s) = (\<not> isDynamic s) \<and>
   toggleFX (toggleFX s) = s \<and>
   toggleFX (toggleFX s) \<noteq> toggleFX s"
proof -
  have flip: "isDynamic (toggleFX s) = (\<not> isDynamic s)"
    by (simp add: toggleFX_def)
  have twice: "toggleFX (toggleFX s) = s"
    by (simp add: toggleFX_def)
  have "isDynamic (toggleFX (toggleFX s)) \<noteq> isDynamic (toggleFX s)"
    using flip twice by simp
  then have "toggleFX (toggleFX s) \<noteq> toggleFX s"
    by auto
  with flip twice show ?thesis
    by simp
qed

text \<open>
  C9 as stated fails: from the initial state, the switch after two toggles differs from
  the switch after one.
\<close>

theorem toggleFX_twice_differs_from_once:
  "isDynamic (toggleFX (toggleFX app0)) \<noteq> isDynamic (toggleFX app0)"
  by (simp add: toggleFX_def app0_def)

section \<open>The effects of a frame\<close>

lemma autopilot_step_channels [simp]:
  "noaaData (autopilot_step e s) = noaaData s"
  "isDynamic (autopilot_step e s) = isDynamic s"
  "lights_left (autopilot_step e s) = lights_left s"
  "lights_center (autopilot_step e s) = lights_center s"
  "lights_right (autopilot_step e s) = lights_right s"
  "reactiveFrame (autopilot_step e s) = reactiveFrame s"
  "dustParticles (autopilot_step e s) = dustParticles s"
  "starField (autopilot_step e s) = starField s"
  "ambientLight (autopilot_step e s) = ambientLight s"
  by (simp_all add: autopilot_step_def randomContent_def Let_def)

lemma manual_step_channels [simp]:
  "noaaData (manual_step e s) = noaaData s"
  "isDynamic (manual_step e s) = isDynamic s"
  "lights_left (manual_step e s) = lights_left s"
  "lights_center (manual_step e s) = lights_center s"
  "lights_right (manual_step e s) = lights_right s"
  "reactiveFrame (manual_step e s) = reactiveFrame s"
  "dustParticles (manual_step e s) = dustParticles s"
  "starField (manual_step e s) = starField s"
  "ambientLight (manual_step e s) = ambientLight s"
  by (simp_all add: manual_step_def Let_def)

lemma animate_channels:
  "noaaData (animate e s) = noaaData s"
  "isDynamic (animate e s) = isDynamic s"
  "lights_left (animate e s) =
     lights_left (dynamics (Fin (date_now e * 0.001))
       (if isAutopilot s then autopilot_step e s else manual_step e s))"
  "lights_center (animate e s) =
     lights_center (dynamics (Fin (date_now e * 0.001))
       (if isAutopilot s then autopilot_step e s else manual_step e s))"
  "lights_right (animate e s) =
     lights_right (dynamics (Fin (date_now e * 0.001))
       (if isAutopilot s then autopilot_step e s else manual_step e s))"
  "reactiveFrame (animate e s) =
     reactiveFrame (dynamics (Fin (date_now e * 0.001))
       (if isAutopilot s then autopilot_step e s else manual_step e s))"
  "dustParticles (animate e s) =
     dustParticles (dynamics (Fin (date_now e * 0.001))
       (if isAutopilot s then autopilot_step e s else manual_step e s))"
  "starField (animate e s) =
     starField (dynamics (Fin (date_now e * 0.001))
       (if isAutopilot s then autopilot_step e s else manual_step e s))"
  "ambientLight (animate e s) =
     ambientLight (dynamics (Fin (date_now e * 0.001))
       (if isAutopilot s then autopilot_step e s else manual_step e s))"
  by (simp_all add: animate_def dynamics_def Let_def split: prod.splits)

lemma animate_static:
  assumes "\<not> isDynamic s"
  shows "lights_left (animate e s) = lights_left s"
    "lights_center (animate e s) = lights_center s"
    "lights_right (animate e s) = lights_right s"
    "reactiveFrame (animate e s) = reactiveFrame s"
    "dustParticles (animate e s) = dustParticles s"
    "ambientLight (animate e s) = ambientLight s"
    "starField (animate e s)
       = (starField s)\<lparr>star_rotation_y := star_rotation_y (starField s) + Fin 0.0002\<rparr>"
  using assms by (simp_all add: animate_channels dynamics_def)

lemma frames_snoc: "frames (es @ [e]) s = animate e (frames es s)"
  by (simp add: frames_def)

lemma frames_static:
  assumes "\<not> isDynamic s"
  shows "\<not> isDynamic (frames es s) \<and>
    lights_left (frames es s) = lights_left s \<and>
    lights_center (frames es s) = lights_center s \<and>
    lights_right (frames es s) = lights_right s \<and>
    reactiveFrame (frames es s) = reactiveFrame s \<and>
    dustParticles (frames es s) = dustParticles s \<and>
    ambientLight (frames es s) = ambientLight s \<and>
    starField (frames es s)
      = (starField s)\<lparr>star_rotation_y :=
          ((\<lambda>u. u + Fin 0.0002) ^^ length es) (star_rotation_y (starField s))\<rparr>"
proof (induction es rule: rev_induct)
  case Nil
  show ?case using assms by (simp add: frames_def)
next
  case (snoc e es)
  then have off: "\<not> isDynamic (frames es s)"
    by simp
  show ?case
    using snoc by (simp add: frames_snoc animate_static [OF off] animate_channels(2))
qed

text \<open>
  C7. With the effects switched off, any run of frames leaves the three lights, the
  reactive frame, the dust and the ambient light as they were, and leaves the star field
  as it was but for its rotation, to which each frame adds 0.0002; so does a single frame.
\<close>

theorem static_frames_only_turn_stars:
  assumes "\<not> isDynamic s"
  shows "lights_left (frames es s) = lights_left s \<and>
    lights_center (frames es s) = lights_center s \<and>
    lights_right (frames es s) = lights_right s \<and>
    reactiveFrame (frames es s) = reactiveFrame s \<and>
    dustParticles (frames es s) = dustParticles s \<and>
    ambientLight (frames es s) = ambientLight s \<and>
    starField (frames es s)
      = (starField s)\<lparr>star_rotation_y :=
          ((\<lambda>u. u + Fin 0.0002) ^^ length es) (star_rotation_y (starField s))\<rparr> \<and>
    starField (animate e s)
      = (starField s)\<lparr>star_rotation_y := star_rotation_y (starField s) + Fin 0.0002\<rparr>"
  using frames_static [OF assms, of es] animate_static(7) [OF assms, of e] by simp

text \<open>The theorem on two frames after the switch is turned off in the initial state.\<close>

theorem static_frames_only_turn_stars_witness:
  "\<not> isDynamic (toggleFX app0) \<and>
   lights_left (frames [env0, env0] (toggleFX app0)) = lights_left app0 \<and>
   lights_center (frames [env0, env0] (toggleFX app0)) = lights_center app0 \<and>
   lights_right (frames [env0, env0] (toggleFX app0)) = lights_right app0 \<and>
   reactiveFrame (frames [env0, env0] (toggleFX app0)) = reactiveFrame app0 \<and>
   dustParticles (frames [env0, env0] (toggleFX app0)) = dustParticles app0 \<and>
   ambientLight (frames [env0, env0] (toggleFX app0)) = ambientLight app0 \<and>
   starField (frames [env0, env0] (toggleFX app0))
     = \<lparr> star_rotation_y = Fin 0.0004, star_position_z = Fin 0, star_opacity = Fin 0.4 \<rparr> \<and>
   starField (animate env0 (toggleFX app0))
     = \<lparr> star_rotation_y = Fin 0.0002, star_position_z = Fin 0, star_opacity = Fin 0.4 \<rparr>"
proof -
  have off: "\<not> isDynamic (toggleFX app0)"
    by (simp add: toggleFX_def app0_def)
  have same: "lights_left (toggleFX app0) = lights_left app0"
    "lights_center (toggleFX app0) = lights_center app0"
    "lights_right (toggleFX app0) = lights_right app0"
    "reactiveFrame (toggleFX app0) = reactiveFrame app0"
    "dustParticles (toggleFX app0) = dustParticles app0"
    "ambientLight (toggleFX app0) = ambientLight app0"
    "starField (toggleFX app0)
       = \<lparr> star_rotation_y = Fin 0, star_position_z = Fin 0, star_opacity = Fin 0.4 \<rparr>"
    by (simp_all add: toggleFX_def app0_def)
  show ?thesis
    using static_frames_only_turn_stars [OF off, of "[env0, env0]" env0] off
    by (simp add: same jsnum_arith numeral_2_eq_2)
qed

lemma Math_sin_Fin_mult [simp]: "Math_sin (Fin a * Fin b) = Fin (sin (a * b))"
  by (simp add: jsnum_arith)

lemma frame_step_palette:
  "(emissive (frame_step d (Fin t) f), emissiveIntensity (frame_step d (Fin t) f)) =
     (if jlt (bz d) (Fin (- 5)) then (0xff3300, Fin (0.3 + 0.2 * sin (2 * t)))
      else if jgt (bz d) (Fin 5) then (0x0066ff, Fin (0.15 + 0.1 * sin t))
      else if jgt (kp d) (Fin 5) then (0x9933ff, Fin (0.4 + 0.3 * sin (3 * t)))
      else if jgt (ssn d) (Fin 100) then (0xffaa00, Fin (0.2 + 0.15 * sin (1.5 * t)))
      else (0x003344, Fin (0.05 + 0.05 * sin (0.5 * t))))"
  by (simp add: frame_step_def Let_def jsnum_arith mult.commute)

lemma dynamics_frame:
  "isDynamic s \<Longrightarrow>
   reactiveFrame (dynamics t s) = map_option (frame_step (noaaData s) t) (reactiveFrame s)"
  by (simp add: dynamics_def Let_def)

text \<open>
  C8. On a frame with the effects switched on and the reactive frame present, the
  emissive colour and intensity of the frame are chosen by the first test that holds, at
  the time \<open>t\<close> in seconds of the frame: \<open>bz < -5\<close> gives the red and orange alert colour
  \<open>ff3300\<close> with intensity \<open>0.3 + 0.2 sin(2t)\<close>; otherwise \<open>bz > 5\<close> gives the blue
  \<open>0066ff\<close> with \<open>0.15 + 0.1 sin(t)\<close>; otherwise \<open>kp > 5\<close> gives the purple \<open>9933ff\<close> with
  \<open>0.4 + 0.3 sin(3t)\<close>; otherwise \<open>ssn > 100\<close> gives the gold \<open>ffaa00\<close> with
  \<open>0.2 + 0.15 sin(1.5t)\<close>; otherwise the dim cyan \<open>003344\<close> with \<open>0.05 + 0.05 sin(0.5t)\<close>.
  A snapshot with \<open>kp\<close> 9 and \<open>bz\<close> -10 gets the alert colour.
\<close>

theorem frame_palette_priority_chain:
  assumes "isDynamic s" and "reactiveFrame s = Some f"
  shows "map_option (\<lambda>g. (emissive g, emissiveIntensity g)) (reactiveFrame (animate e s)) =
     Some (if jlt (bz (noaaData s)) (Fin (- 5))
           then (0xff3300, Fin (0.3 + 0.2 * sin (2 * (date_now e * 0.001))))
           else if jgt (bz (noaaData s)) (Fin 5)
           then (0x0066ff, Fin (0.15 + 0.1 * sin (date_now e * 0.001)))
           else if jgt (kp (noaaData s)) (Fin 5)
           then (0x9933ff, Fin (0.4 + 0.3 * sin (3 * (date_now e * 0.001))))
           else if jgt (ssn (noaaData s)) (Fin 100)
           then (0xffaa00, Fin (0.2 + 0.15 * sin (1.5 * (date_now e * 0.001))))
           else (0x003344, Fin (0.05 + 0.05 * sin (0.5 * (date_now e * 0.001))))) \<and>
    (kp (noaaData s) = Fin 9 \<and> bz (noaaData s) = Fin (- 10) \<longrightarrow>
       map_option emissive (reactiveFrame (animate e s)) = Some 0xff3300)"
proof -
  let ?t = "date_now e * 0.001"
  have "reactiveFrame (animate e s) = Some (frame_step (noaaData s) (Fin ?t) f)"
    using assms by (simp add: animate_channels dynamics_frame)
  then show ?thesis
    using frame_step_palette [of "noaaData s" ?t f] by auto
qed

lemma r_example_raw:
  "kp (noaaData (updateSpaceWeather r_example app0)) = Fin 9"
  "bz (noaaData (updateSpaceWeather r_example app0)) = Fin (- 10)"
  by (simp_all add: noaaData_updateSpaceWeather update_raw_fields r_example_def no_data_def
      last_elem_def parseFloat_def or_else_def)

lemma updateSpaceWeather_frame [simp]:
  "isDynamic (updateSpaceWeather r s) = isDynamic s"
  "reactiveFrame (updateSpaceWeather r s) = reactiveFrame s"
  by (simp_all add: updateSpaceWeather_def updateLightsFromNOAA_def Let_def)

text \<open>
  The theorem on the frame at one second after the refresh of the example, which stored
  \<open>kp\<close> 9 and \<open>bz\<close> -10.
\<close>

theorem frame_palette_priority_chain_witness:
  "isDynamic (updateSpaceWeather r_example app0) \<and>
   reactiveFrame (updateSpaceWeather r_example app0) = reactiveFrame app0 \<and>
   kp (noaaData (updateSpaceWeather r_example app0)) = Fin 9 \<and>
   bz (noaaData (updateSpaceWeather r_example app0)) = Fin (- 10) \<and>
   map_option (\<lambda>g. (emissive g, emissiveIntensity g))
       (reactiveFrame (animate env0 (updateSpaceWeather r_example app0)))
     = Some (0xff3300, Fin (0.3 + 0.2 * sin 2)) \<and>
   map_option emissive (reactiveFrame (animate env0 (updateSpaceWeather r_example app0)))
     = Some 0xff3300"
proof -
  have dyn: "isDynamic (updateSpaceWeather r_example app0)"
    by (simp add: app0_def)
  obtain f where f: "reactiveFrame (updateSpaceWeather r_example app0) = Some f"
    by (simp add: app0_def)
  have "date_now env0 = 1000"
    by (simp add: env0_def)
  then show ?thesis
    using frame_palette_priority_chain [OF dyn f, of env0] dyn r_example_raw
    by simp
qed

end
